theory Spec2Isabelle
  imports Main
begin

section \<open>Python string primitives used by the server\<close>

text \<open>
  The server works on Python \<open>str\<close> values. A string is modelled as a \<open>char list\<close>
  whose elements are code points below 256, so \<open>length\<close> counts what Python's
  \<open>len\<close> counts on such a string. The primitives below follow the behaviour of the
  Python methods of the same name on that range.
\<close>

definition newline :: char where
  "newline = CHR 0x0A"

definition squote :: char where
  "squote = CHR 0x27"

definition dquote :: char where
  "dquote = CHR 0x22"

text \<open>
  \<open>str.strip()\<close> without argument removes the characters for which \<open>str.isspace\<close>
  holds: tab, line feed, vertical tab, form feed, carriage return, the separators
  0x1C to 0x1F, the space, NEL (0x85) and the no-break space (0xA0).
\<close>

definition is_space :: "char \<Rightarrow> bool" where
  "is_space c = (let n = (of_char c :: nat) in
     (9 \<le> n \<and> n \<le> 13) \<or> (28 \<le> n \<and> n \<le> 32) \<or> n = 133 \<or> n = 160)"

definition strip_by :: "(char \<Rightarrow> bool) \<Rightarrow> string \<Rightarrow> string" where
  "strip_by p s = rev (dropWhile p (rev (dropWhile p s)))"

definition strip :: "string \<Rightarrow> string" where
  "strip s = strip_by is_space s"

text \<open>\<open>s.strip(c)\<close> for a one-character argument: remove leading and trailing \<open>c\<close>.\<close>

definition strip_char :: "char \<Rightarrow> string \<Rightarrow> string" where
  "strip_char c s = strip_by (\<lambda>x. x = c) s"

definition startswith :: "string \<Rightarrow> string \<Rightarrow> bool" where
  "startswith s prefix = (take (length prefix) s = prefix)"

text \<open>
  \<open>s.split(sep)\<close> for a one-character separator: the pieces between the occurrences of
  the separator, always at least one piece.
\<close>

fun split_on :: "char \<Rightarrow> string \<Rightarrow> string list" where
  "split_on sep [] = [[]]"
| "split_on sep (c # cs) =
     (if c = sep then [] # split_on sep cs
      else (let r = split_on sep cs in (c # hd r) # tl r))"

text \<open>\<open>s.find(c)\<close>: the index of the first occurrence, or -1.\<close>

fun find_from :: "char \<Rightarrow> string \<Rightarrow> int \<Rightarrow> int" where
  "find_from c [] i = -1"
| "find_from c (x # xs) i = (if x = c then i else find_from c xs (i + 1))"

definition find_char :: "char \<Rightarrow> string \<Rightarrow> int" where
  "find_char c s = find_from c s 0"

text \<open>
  \<open>s[a:b]\<close>: a negative bound counts from the end, and both bounds are clamped to the
  string, so a slice never fails; it is empty when the bounds cross.
\<close>

definition clamp_index :: "nat \<Rightarrow> int \<Rightarrow> nat" where
  "clamp_index n i = (if i < 0 then nat (max (i + int n) 0) else min (nat i) n)"

definition slice :: "string \<Rightarrow> int \<Rightarrow> int \<Rightarrow> string" where
  "slice s a b = drop (clamp_index (length s) a) (take (clamp_index (length s) b) s)"

text \<open>\<open>sub in s\<close> on strings: \<open>sub\<close> occurs in \<open>s\<close> as a contiguous substring.\<close>

fun contains :: "string \<Rightarrow> string \<Rightarrow> bool" where
  "contains [] sub = (sub = [])"
| "contains (c # cs) sub = (startswith (c # cs) sub \<or> contains cs sub)"

text \<open>\<open>sep.join(xs)\<close>.\<close>

fun join :: "string \<Rightarrow> string list \<Rightarrow> string" where
  "join sep [] = []"
| "join sep [x] = x"
| "join sep (x # y # ys) = x @ sep @ join sep (y # ys)"

section \<open>The export extractor\<close>

text \<open>
  \<open>_parse_list_items\<close>: the loop over the comma-separated pieces, with the list
  \<open>items\<close> it appends to.
\<close>

definition clean_item :: "string \<Rightarrow> string" where
  "clean_item item = strip (strip_char squote (strip_char dquote (strip item)))"

fun parse_items_loop :: "string list \<Rightarrow> string list \<Rightarrow> string list" where
  "parse_items_loop items [] = items"
| "parse_items_loop items (piece # rest) =
     (let item = clean_item piece in
      if item \<noteq> [] \<and> \<not> startswith item ''#''
      then parse_items_loop (items @ [item]) rest
      else parse_items_loop items rest)"

definition parse_list_items :: "string \<Rightarrow> string list" where
  "parse_list_items items_str = parse_items_loop [] (split_on (CHR '','') items_str)"

text \<open>
  \<open>_extract_exports\<close>: the state of the loop over the lines is the list \<open>exports\<close>
  and the flag \<open>in_all_block\<close>; \<open>scan_line\<close> is one iteration of the loop body.
\<close>

type_synonym scan_state = "string list \<times> bool"

definition scan_line :: "scan_state \<Rightarrow> string \<Rightarrow> scan_state" where
  "scan_line st raw =
     (let exports = fst st; in_all_block = snd st; line = strip raw in
      if startswith line ''__all__'' then
        (if CHR ''['' \<in> set line \<and> CHR '']'' \<in> set line then
           (let start = find_char (CHR ''['') line; end = find_char (CHR '']'') line in
            if start \<noteq> -1 \<and> end \<noteq> -1
            then (exports @ parse_list_items (slice line (start + 1) end), False)
            else (exports, True))
         else (exports, True))
      else if in_all_block then
        (if CHR '']'' \<in> set line
         then (exports @ parse_list_items (slice line 0 (find_char (CHR '']'') line)), False)
         else (exports @ parse_list_items line, in_all_block))
      else (exports, in_all_block))"

definition scan_lines :: "scan_state \<Rightarrow> string list \<Rightarrow> scan_state" where
  "scan_lines st lines = foldl scan_line st lines"

definition extract_exports :: "string \<Rightarrow> string list" where
  "extract_exports content = fst (scan_lines ([], False) (split_on newline content))"

section \<open>Further string primitives\<close>

text \<open>\<open>s.lower()\<close> on code points below 256: the ASCII capitals and the Latin-1 capitals
  0xC0 to 0xDE, the multiplication sign 0xD7 apart, move up by 32.\<close>

definition lower_char :: "char \<Rightarrow> char" where
  "lower_char c = (let n = (of_char c :: nat) in
     if (65 \<le> n \<and> n \<le> 90) \<or> (192 \<le> n \<and> n \<le> 222 \<and> n \<noteq> 215)
     then char_of (n + 32) else c)"

definition lower :: "string \<Rightarrow> string" where
  "lower s = map lower_char s"

text \<open>\<open>s.replace(old, new)\<close> for a non-empty \<open>old\<close>: the occurrences are replaced from
  left to right, without overlap.\<close>

fun replace :: "string \<Rightarrow> string \<Rightarrow> string \<Rightarrow> string" where
  "replace old new [] = []"
| "replace old new (c # cs) =
     (if old \<noteq> [] \<and> startswith (c # cs) old
      then new @ replace old new (drop (length old - 1) cs)
      else c # replace old new cs)"

text \<open>\<open>str(n)\<close> for a length: the decimal digits.\<close>

fun str_nat :: "nat \<Rightarrow> string" where
  "str_nat n = (if n < 10 then [char_of (48 + n)]
                else str_nat (n div 10) @ [char_of (48 + n mod 10)])"

declare str_nat.simps [simp del]

section \<open>The module index\<close>

text \<open>
  One entry of \<open>self.endstone_modules\<close>. The index itself is a Python dictionary, read
  by key and iterated in insertion order: an association list, in insertion order.
\<close>

record module_info =
  file_path :: string
  exports :: "string list"
  content :: string

type_synonym module_index = "(string \<times> module_info) list"

definition keys :: "module_index \<Rightarrow> string list" where
  "keys idx = map fst idx"

text \<open>Truth value of an optional string argument: \<open>None\<close> and \<open>""\<close> are false.\<close>

fun truthy :: "string option \<Rightarrow> bool" where
  "truthy None = False"
| "truthy (Some s) = (s \<noteq> [])"

section \<open>The query operations\<close>

text \<open>Each operation returns the text of the single \<open>TextContent\<close> of its result.\<close>

definition export_bullet :: "string \<Rightarrow> string" where
  "export_bullet export = ''- `'' @ export @ ''`'' @ [newline]"

definition get_module_info :: "module_index \<Rightarrow> string option \<Rightarrow> string" where
  "get_module_info idx arg =
     (if \<not> truthy arg then ''Module name is required''
      else (let module_name = the arg in
        case map_of idx module_name of
          Some info \<Rightarrow>
            (let result = ''# '' @ module_name @ [newline, newline];
                 result = result @ ''**File:** '' @ file_path info @ [newline, newline];
                 result = result @ ''**Exports:** '' @ str_nat (length (exports info))
                            @ '' items'' @ [newline, newline]
             in if exports info \<noteq> []
                then foldl (\<lambda>r export. r @ export_bullet export)
                       (result @ ''## Available Exports:'' @ [newline]) (exports info)
                else result @ ''No exports found in __all__'' @ [newline])
        | None \<Rightarrow>
            (let available = join '', '' (keys idx)
             in ''Module '' @ [squote] @ module_name @ [squote]
                  @ '' not found. Available modules: '' @ available)))"

definition search_line :: "string \<Rightarrow> string \<Rightarrow> string" where
  "search_line export module_name =
     ''- `'' @ export @ ''` from `'' @ module_name @ ''`''"

definition search_module :: "string \<Rightarrow> string list \<Rightarrow> string \<times> module_info \<Rightarrow> string list" where
  "search_module query_lower results entry =
     foldl (\<lambda>res export.
              if contains (lower export) query_lower
              then res @ [search_line export (fst entry)] else res)
       results (exports (snd entry))"

definition search_results :: "module_index \<Rightarrow> string \<Rightarrow> string list" where
  "search_results idx query_lower = foldl (search_module query_lower) [] idx"

definition search_exports :: "module_index \<Rightarrow> string option \<Rightarrow> string" where
  "search_exports idx arg =
     (if \<not> truthy arg then ''Search query is required''
      else (let query = the arg;
                results = search_results idx (lower query)
            in if results \<noteq> []
               then ''# Search Results for '' @ [squote] @ query @ [squote] @ [newline, newline]
                      @ join [newline] results
               else ''No exports found matching '' @ [squote] @ query @ [squote]))"

definition event_names :: "string list \<Rightarrow> string list" where
  "event_names events = filter (\<lambda>e. contains e ''Event'') events"

definition event_usage :: "string \<Rightarrow> string" where
  "event_usage event_type =
     ''# '' @ event_type @ [newline, newline]
       @ ''This event is available in endstone.event module.'' @ [newline, newline]
       @ ''## Usage Example:'' @ [newline, newline]
       @ ''```python'' @ [newline] @ ''from endstone.event import '' @ event_type
       @ '', event_handler'' @ [newline, newline]
       @ ''@event_handler'' @ [newline]
       @ ''def on_'' @ replace ''event'' [] (lower event_type) @ ''(self, event: ''
       @ event_type @ ''):'' @ [newline]
       @ ''    # Handle the event'' @ [newline]
       @ ''    pass'' @ [newline] @ ''```''"

definition event_not_found :: "string \<Rightarrow> string list \<Rightarrow> string" where
  "event_not_found event_type events =
     ''Event '' @ [squote] @ event_type @ [squote] @ '' not found. Available events: ''
       @ join '', '' (event_names events)"

definition get_event_info :: "module_index \<Rightarrow> string option \<Rightarrow> string" where
  "get_event_info idx arg =
     (case map_of idx ''endstone.event'' of
        Some info \<Rightarrow>
          (let events = exports info in
           if truthy arg then
             (let event_type = the arg in
              if event_type \<in> set events then event_usage event_type
              else event_not_found event_type events)
           else
             (let event_list = event_names events
              in foldl (\<lambda>r event. r @ export_bullet event)
                   (''# Available Events ('' @ str_nat (length event_list) @ '')''
                      @ [newline, newline])
                   event_list))
      | None \<Rightarrow> ''Event module not found'')"

section \<open>The template generator\<close>

definition text_lines :: "string list \<Rightarrow> string" where
  "text_lines ls = concat (map (\<lambda>l. l @ [newline]) ls)"

definition base_template :: "string \<Rightarrow> string" where
  \<open>base_template plugin_name = text_lines
     [''from endstone.plugin import Plugin'',
      ''from endstone import Logger'',
      [],
      ''class '' @ plugin_name @ ''Plugin(Plugin):'',
      ''    '',
      ''    def __init__(self):'',
      ''        super().__init__()'',
      ''        self.logger: Logger = self.get_logger()'',
      ''    '',
      ''    def on_enable(self) -> None:'',
      ''        """Called when the plugin is enabled."""'',
      ''        self.logger.info(f"{self.name} v{self.version} has been enabled!")'']\<close>

definition events_fragment :: string where
  \<open>events_fragment = text_lines
     [[],
      ''        # Register event handlers'',
      ''        self.register_events()'',
      ''    '',
      ''    def register_events(self):'',
      ''        """Register event handlers."""'',
      ''        from endstone.event import event_handler, PlayerJoinEvent'',
      ''        '',
      ''        @event_handler'',
      ''        def on_player_join(self, event: PlayerJoinEvent):'',
      ''            player = event.player'',
      ''            self.logger.info(f"Player {{player.name}} joined the server!")'']\<close>

definition commands_fragment :: string where
  \<open>commands_fragment = text_lines
     [[],
      ''        # Register commands'',
      ''        self.register_commands()'',
      ''    '',
      ''    def register_commands(self):'',
      ''        """Register custom commands."""'',
      ''        from endstone.command import Command, CommandExecutor'',
      ''        '',
      ''        # Example command implementation'',
      ''        pass'']\<close>

definition closing_fragment :: string where
  \<open>closing_fragment = text_lines
     [[],
      ''    '',
      ''    def on_disable(self) -> None:'',
      ''        """Called when the plugin is disabled."""'',
      ''        self.logger.info(f"{{self.name}} has been disabled!")'']\<close>

definition create_plugin_template :: "string \<Rightarrow> string list \<Rightarrow> string" where
  "create_plugin_template plugin_name features =
     (let template = base_template plugin_name;
          template = (if ''events'' \<in> set features
                      then template @ events_fragment else template);
          template = (if ''commands'' \<in> set features
                      then template @ commands_fragment else template)
      in template @ closing_fragment)"

definition generate_plugin_template :: "string option \<Rightarrow> string list \<Rightarrow> string" where
  "generate_plugin_template arg features =
     (if \<not> truthy arg then ''Plugin name is required''
      else create_plugin_template (the arg) features)"

section \<open>Notions used in the statements\<close>

text \<open>An export name as the data model wants it: non-empty, not starting with \<open>#\<close>.\<close>

definition valid_name :: "string \<Rightarrow> bool" where
  "valid_name e = (e \<noteq> [] \<and> hd e \<noteq> CHR ''#'')"

text \<open>A marker line: its trimmed form starts with \<open>__all__\<close>.\<close>

definition is_marker_line :: "string \<Rightarrow> bool" where
  "is_marker_line l = startswith (strip l) ''__all__''"

text \<open>The value of the flag \<open>in_all_block\<close> when the scan of a text is over.\<close>

definition ends_in_block :: "string \<Rightarrow> bool" where
  "ends_in_block src = snd (scan_lines ([], False) (split_on newline src))"

text \<open>The number that a string of decimal digits denotes.\<close>

definition digits_value :: "string \<Rightarrow> nat" where
  "digits_value ds = foldl (\<lambda>a c. 10 * a + (of_char c - 48)) 0 ds"

text \<open>
  The search as the specification words it: the modules in index order, in each module
  its exports in order, one line for each export whose lower-case form has the lower-case
  query as a substring.
\<close>

definition spec_search_lines :: "module_index \<Rightarrow> string \<Rightarrow> string list" where
  "spec_search_lines idx query =
     concat (map (\<lambda>entry. map (\<lambda>e. search_line e (fst entry))
                            (filter (\<lambda>e. \<exists>a b. lower e = a @ lower query @ b)
                               (exports (snd entry))))
               idx)"

text \<open>The event listing as the specification words it: the exports whose name has
  \<open>Event\<close> as a substring, in order.\<close>

definition spec_event_list :: "string list \<Rightarrow> string list" where
  "spec_event_list events = filter (\<lambda>e. \<exists>a b. e = a @ ''Event'' @ b) events"

text \<open>A small index with two modules, for evaluating the operations.\<close>

definition demo_index :: module_index where
  "demo_index =
     [(''endstone.form'',
         \<lparr>file_path = ''form.py'', exports = [''ActionForm'', ''Label''], content = []\<rparr>),
      (''endstone.event'',
         \<lparr>file_path = ''event.py'',
          exports = [''PlayerJoinEvent'', ''event_handler'', ''BlockBreakEvent''],
          content = []\<rparr>)]"

section \<open>Facts about the string primitives\<close>

lemma split_on_not_Nil: "split_on sep s \<noteq> []"
  by (induction s) (simp_all add: Let_def)

lemma split_on_append:
  "split_on sep (a @ sep # b) = split_on sep a @ split_on sep b"
proof (induction a)
  case Nil
  show ?case by simp
next
  case (Cons c a)
  show ?case
  proof (cases "c = sep")
    case True
    with Cons show ?thesis by simp
  next
    case False
    have "split_on sep a \<noteq> []" by (rule split_on_not_Nil)
    with False Cons show ?thesis by (simp add: Let_def)
  qed
qed

lemma startswith_hash: "e \<noteq> [] \<Longrightarrow> startswith e ''#'' = (hd e = CHR ''#'')"
  by (cases e) (simp_all add: startswith_def)

section \<open>Facts about the export extractor\<close>

lemma parse_items_loop_valid:
  "list_all valid_name items \<Longrightarrow> list_all valid_name (parse_items_loop items ps)"
proof (induction ps arbitrary: items)
  case Nil
  then show ?case by simp
next
  case (Cons p ps)
  show ?case
  proof (cases "clean_item p \<noteq> [] \<and> \<not> startswith (clean_item p) ''#''")
    case True
    then have "valid_name (clean_item p)"
      using startswith_hash [of "clean_item p"] by (simp add: valid_name_def)
    with Cons.prems have "list_all valid_name (items @ [clean_item p])" by simp
    from Cons.IH [OF this] True show ?thesis by (simp add: Let_def)
  next
    case False
    with Cons.IH [OF Cons.prems] show ?thesis by (auto simp add: Let_def)
  qed
qed

lemma parse_list_items_valid: "list_all valid_name (parse_list_items s)"
  unfolding parse_list_items_def by (rule parse_items_loop_valid) simp

lemma scan_line_valid:
  "list_all valid_name (fst st) \<Longrightarrow> list_all valid_name (fst (scan_line st l))"
  by (simp add: scan_line_def Let_def parse_list_items_valid)

lemma scan_lines_valid:
  "list_all valid_name (fst st) \<Longrightarrow> list_all valid_name (fst (scan_lines st ls))"
  unfolding scan_lines_def
  by (induction ls arbitrary: st) (simp_all add: scan_line_valid)

text \<open>One iteration only appends to \<open>exports\<close>; what it appends and the new flag depend
  on the old flag and the line alone.\<close>

lemma scan_line_acc:
  "scan_line (ex, b) l = (ex @ fst (scan_line ([], b) l), snd (scan_line ([], b) l))"
  by (simp add: scan_line_def Let_def)

lemma scan_lines_acc:
  "scan_lines (ex, b) ls = (ex @ fst (scan_lines ([], b) ls), snd (scan_lines ([], b) ls))"
proof (induction ls arbitrary: ex b)
  case Nil
  show ?case by (simp add: scan_lines_def)
next
  case (Cons l ls)
  obtain ex1 b1 where s1: "scan_line ([], b) l = (ex1, b1)" by (cases "scan_line ([], b) l")
  have s2: "scan_line (ex, b) l = (ex @ ex1, b1)"
    using scan_line_acc [of ex b l] s1 by simp
  have "scan_lines (ex, b) (l # ls) = scan_lines (ex @ ex1, b1) ls"
    using s2 by (simp add: scan_lines_def)
  moreover have "scan_lines ([], b) (l # ls) = scan_lines (ex1, b1) ls"
    using s1 by (simp add: scan_lines_def)
  ultimately show ?case
    using Cons.IH [of "ex @ ex1" b1] Cons.IH [of ex1 b1] by simp
qed

lemma scan_lines_append:
  "scan_lines st (xs @ ys) = scan_lines (scan_lines st xs) ys"
  by (simp add: scan_lines_def)

lemma scan_lines_no_marker:
  "list_all (\<lambda>l. \<not> is_marker_line l) ls \<Longrightarrow> scan_lines (ex, False) ls = (ex, False)"
  unfolding scan_lines_def
  by (induction ls) (simp_all add: scan_line_def is_marker_line_def Let_def)

lemma find_from_ge: "c \<in> set s \<Longrightarrow> i \<le> find_from c s i"
proof (induction s arbitrary: i)
  case Nil
  then show ?case by simp
next
  case (Cons x xs)
  show ?case
  proof (cases "x = c")
    case True
    then show ?thesis by simp
  next
    case False
    with Cons.prems have "c \<in> set xs" by simp
    from Cons.IH [OF this, of "i + 1"] False show ?thesis by simp
  qed
qed

lemma find_char_found: "c \<in> set s \<Longrightarrow> find_char c s \<noteq> -1"
  using find_from_ge [of c s 0] by (simp add: find_char_def)

lemma split_on_no_sep: "sep \<notin> set s \<Longrightarrow> split_on sep s = [s]"
  by (induction s) (auto simp add: Let_def)

lemma scan_line_marker_open:
  assumes "is_marker_line l"
    and "\<not> (CHR ''['' \<in> set (strip l) \<and> CHR '']'' \<in> set (strip l))"
  shows "scan_line (ex, b) l = (ex, True)"
  using assms by (simp add: scan_line_def is_marker_line_def Let_def)

lemma scan_line_marker_one_line:
  assumes "is_marker_line l"
    and "CHR ''['' \<in> set (strip l) \<and> CHR '']'' \<in> set (strip l)"
  shows "scan_line (ex, b) l
           = (ex @ parse_list_items
                     (slice (strip l) (find_char (CHR ''['') (strip l) + 1)
                        (find_char (CHR '']'') (strip l))),
              False)"
  using assms find_char_found [of "CHR ''[''" "strip l"] find_char_found [of "CHR '']''" "strip l"]
  by (simp add: scan_line_def is_marker_line_def Let_def)

lemma extract_exports_append:
  assumes "\<not> ends_in_block c1"
  shows "extract_exports (c1 @ newline # c2) = extract_exports c1 @ extract_exports c2"
proof -
  obtain ex1 where s1: "scan_lines ([], False) (split_on newline c1) = (ex1, False)"
    using assms unfolding ends_in_block_def
    by (cases "scan_lines ([], False) (split_on newline c1)") simp
  have "scan_lines ([], False) (split_on newline (c1 @ newline # c2))
          = scan_lines (ex1, False) (split_on newline c2)"
    by (simp add: split_on_append scan_lines_append s1)
  then show ?thesis
    using scan_lines_acc [of ex1 False "split_on newline c2"] s1
    by (simp add: extract_exports_def)
qed

section \<open>Claims about the export extractor\<close>

text \<open>
  C1, as the specification states it: once a declaration block has been exited the
  extractor does not enter block mode again, so a second declaration contributes no
  entry. The code sets \<open>in_all_block\<close> at every marker line. On a text with two
  declarations in block form the result holds the entries of both, while the first
  declaration alone gives one entry.
\<close>

theorem second_declaration_counterexample:
  \<open>extract_exports (''__all__ = ['' @ [newline] @ ''"A",'' @ [newline] @ '']'' @ [newline]
       @ ''__all__ = ['' @ [newline] @ ''"B",'' @ [newline] @ '']'') = [''A'', ''B'']
   \<and> extract_exports (''__all__ = ['' @ [newline] @ ''"A",'' @ [newline] @ '']'') = [''A'']\<close>
  by code_simp

text \<open>
  C1, amended: every marker line sets the block flag again, whatever the state of the
  scan, also after an earlier declaration has been exited. A marker line that does not
  hold both brackets leaves the scan in block mode with the entries so far unchanged, so
  a text that ends with such a line ends in block mode, whatever comes before the line.
  A marker line that holds both brackets appends the entries between its first opening
  and its first closing bracket and leaves block mode. When the scan of a first part
  leaves block mode, the result for the first part, a line break and a second part is
  the entries of the first part followed by the entries that the second part gives on
  its own.
\<close>

theorem marker_line_starts_declaration:
  "(is_marker_line l \<and> \<not> (CHR ''['' \<in> set (strip l) \<and> CHR '']'' \<in> set (strip l))
      \<longrightarrow> scan_line (ex, b) l = (ex, True)
          \<and> (newline \<notin> set l \<longrightarrow> ends_in_block (c1 @ newline # l)))
   \<and> (is_marker_line l \<and> CHR ''['' \<in> set (strip l) \<and> CHR '']'' \<in> set (strip l)
      \<longrightarrow> scan_line (ex, b) l
            = (ex @ parse_list_items
                      (slice (strip l) (find_char (CHR ''['') (strip l) + 1)
                         (find_char (CHR '']'') (strip l))),
               False))
   \<and> (\<not> ends_in_block c1
      \<longrightarrow> extract_exports (c1 @ newline # c2) = extract_exports c1 @ extract_exports c2)"
proof (intro conjI impI)
  assume "is_marker_line l \<and> \<not> (CHR ''['' \<in> set (strip l) \<and> CHR '']'' \<in> set (strip l))"
  then show "scan_line (ex, b) l = (ex, True)"
    using scan_line_marker_open by blast
next
  assume m: "is_marker_line l \<and> \<not> (CHR ''['' \<in> set (strip l) \<and> CHR '']'' \<in> set (strip l))"
    and n: "newline \<notin> set l"
  from m have "snd (scan_line st l) = True" for st
    using scan_line_marker_open [of l "fst st" "snd st"] by simp
  then show "ends_in_block (c1 @ newline # l)"
    by (simp add: ends_in_block_def split_on_append split_on_no_sep [OF n]
          scan_lines_append scan_lines_def)
next
  assume "is_marker_line l \<and> CHR ''['' \<in> set (strip l) \<and> CHR '']'' \<in> set (strip l)"
  then show "scan_line (ex, b) l
            = (ex @ parse_list_items
                      (slice (strip l) (find_char (CHR ''['') (strip l) + 1)
                         (find_char (CHR '']'') (strip l))),
               False)"
    using scan_line_marker_one_line by blast
next
  assume "\<not> ends_in_block c1"
  then show "extract_exports (c1 @ newline # c2) = extract_exports c1 @ extract_exports c2"
    by (rule extract_exports_append)
qed

theorem marker_line_starts_declaration_witness:
  \<open>is_marker_line ''__all__ = [''
   \<and> CHR '']'' \<notin> set (strip ''__all__ = ['')
   \<and> newline \<notin> set ''__all__ = [''
   \<and> scan_line ([''A''], False) ''__all__ = ['' = ([''A''], True)
   \<and> \<not> ends_in_block (''__all__ = ['' @ [newline] @ ''"A",'' @ [newline] @ '']'')
   \<and> ends_in_block ((''__all__ = ['' @ [newline] @ ''"A",'' @ [newline] @ '']'')
         @ newline # ''__all__ = ['')
   \<and> extract_exports ((''__all__ = ['' @ [newline] @ ''"A",'' @ [newline] @ '']'')
         @ newline # (''__all__ = ['' @ [newline] @ ''"B",'' @ [newline] @ '']''))
       = [''A'', ''B'']
   \<and> is_marker_line ''__all__ = ["B"]''
   \<and> scan_line ([''A''], False) ''__all__ = ["B"]'' = ([''A'', ''B''], False)\<close>
proof -
  let ?l = \<open>''__all__ = [''\<close>
  let ?o = \<open>''__all__ = ["B"]''\<close>
  let ?c1 = \<open>''__all__ = ['' @ [newline] @ ''"A",'' @ [newline] @ '']''\<close>
  let ?c2 = \<open>''__all__ = ['' @ [newline] @ ''"B",'' @ [newline] @ '']''\<close>
  have m: "is_marker_line ?l" by code_simp
  have k: "CHR '']'' \<notin> set (strip ?l)" by code_simp
  have n: "newline \<notin> set ?l" by code_simp
  have e: "\<not> ends_in_block ?c1" by code_simp
  have v1: "extract_exports ?c1 = [''A'']" by code_simp
  have v2: "extract_exports ?c2 = [''B'']" by code_simp
  have mo: "is_marker_line ?o" by code_simp
  have bo: "CHR ''['' \<in> set (strip ?o) \<and> CHR '']'' \<in> set (strip ?o)" by code_simp
  have po: "parse_list_items
              (slice (strip ?o) (find_char (CHR ''['') (strip ?o) + 1)
                 (find_char (CHR '']'') (strip ?o))) = [''B'']"
    by code_simp
  note t1 = marker_line_starts_declaration [of ?l "[''A'']" False ?c1 ?c2]
  note t2 = marker_line_starts_declaration [of ?o "[''A'']" False ?c1 ?c2]
  from t1 m k have a1: "scan_line ([''A''], False) ?l = ([''A''], True)" by blast
  from t1 m k n have a2: "ends_in_block (?c1 @ newline # ?l)" by blast
  from t1 e have "extract_exports (?c1 @ newline # ?c2) = extract_exports ?c1 @ extract_exports ?c2"
    by blast
  then have a3: "extract_exports (?c1 @ newline # ?c2) = [''A'', ''B'']"
    unfolding v1 v2 by simp
  from t2 mo bo have "scan_line ([''A''], False) ?o
            = ([''A''] @ parse_list_items
                      (slice (strip ?o) (find_char (CHR ''['') (strip ?o) + 1)
                         (find_char (CHR '']'') (strip ?o))),
               False)" by blast
  then have a4: "scan_line ([''A''], False) ?o = ([''A'', ''B''], False)"
    unfolding po by simp
  from m k n a1 e a2 a3 mo a4 show ?thesis by (intro conjI)
qed

text \<open>
  C2: the two reference examples. The one-line declaration gives A, B, C in that order;
  the declaration in block form gives X, Y, with the entries indented as the
  specification prints them and also without indentation.
\<close>

theorem extract_exports_examples:
  \<open>extract_exports ''__all__ = ["A", "B", "C"]'' = [''A'', ''B'', ''C'']
   \<and> extract_exports (''__all__ = ['' @ [newline] @ ''    "X",'' @ [newline]
        @ ''    "Y",'' @ [newline] @ '']'') = [''X'', ''Y'']
   \<and> extract_exports (''__all__ = ['' @ [newline] @ ''"X",'' @ [newline]
        @ ''"Y",'' @ [newline] @ '']'') = [''X'', ''Y'']\<close>
  by code_simp

text \<open>
  C3: every name that the extractor returns is non-empty and does not begin with the
  comment marker \<open>#\<close>, whatever the text.
\<close>

theorem extract_exports_names_valid:
  "\<forall>e \<in> set (extract_exports src). e \<noteq> [] \<and> hd e \<noteq> CHR ''#''"
proof -
  have "list_all valid_name (extract_exports src)"
    unfolding extract_exports_def by (rule scan_lines_valid) simp
  then show ?thesis by (simp add: list_all_iff valid_name_def)
qed

theorem extract_exports_names_valid_witness:
  \<open>''B'' \<in> set (extract_exports ''__all__ = ["A", "#x", "", "B"]'')
   \<and> ''B'' \<noteq> [] \<and> hd ''B'' \<noteq> CHR ''#''
   \<and> extract_exports ''__all__ = ["A", "#x", "", "B"]'' = [''A'', ''B'']\<close>
proof -
  have v: \<open>extract_exports ''__all__ = ["A", "#x", "", "B"]'' = [''A'', ''B'']\<close>
    by code_simp
  show ?thesis
    using v extract_exports_names_valid [of \<open>''__all__ = ["A", "#x", "", "B"]''\<close>] by simp
qed

text \<open>
  C4: the extractor is a total function with no failing branch (splitting, trimming,
  prefix and membership tests, \<open>find\<close> and slicing are defined on every string): each
  text has a result, and a text none of whose lines is a marker line gives the empty list.
\<close>

theorem extract_exports_total_no_marker:
  "(\<exists>r. extract_exports src = r)
   \<and> ((\<forall>l \<in> set (split_on newline src). \<not> is_marker_line l) \<longrightarrow> extract_exports src = [])"
  using scan_lines_no_marker [of "split_on newline src" "[]"]
  by (simp add: extract_exports_def list_all_iff)

theorem extract_exports_total_no_marker_witness:
  "split_on newline (''import os'' @ [newline] @ ''x = [1, 2]'') = [''import os'', ''x = [1, 2]'']
   \<and> \<not> is_marker_line ''import os'' \<and> \<not> is_marker_line ''x = [1, 2]''
   \<and> extract_exports (''import os'' @ [newline] @ ''x = [1, 2]'') = []"
proof -
  have s: "split_on newline (''import os'' @ [newline] @ ''x = [1, 2]'')
             = [''import os'', ''x = [1, 2]'']"
    by code_simp
  have m: "\<not> is_marker_line ''import os''" "\<not> is_marker_line ''x = [1, 2]''"
    by code_simp+
  show ?thesis
    using s m extract_exports_total_no_marker [of "''import os'' @ [newline] @ ''x = [1, 2]''"]
    by simp
qed

section \<open>Facts about the query operations\<close>

lemma startswith_iff: "startswith s sub \<longleftrightarrow> (\<exists>b. s = sub @ b)"
proof
  assume "startswith s sub"
  then have "s = sub @ drop (length sub) s"
    unfolding startswith_def by (metis append_take_drop_id)
  then show "\<exists>b. s = sub @ b" ..
next
  assume "\<exists>b. s = sub @ b"
  then show "startswith s sub" by (auto simp: startswith_def)
qed

lemma contains_iff: "contains s sub \<longleftrightarrow> (\<exists>a b. s = a @ sub @ b)"
proof (induction s)
  case Nil
  show ?case by auto
next
  case (Cons c cs)
  show ?case
  proof
    assume "contains (c # cs) sub"
    then consider "startswith (c # cs) sub" | "contains cs sub" by auto
    then show "\<exists>a b. c # cs = a @ sub @ b"
    proof cases
      case 1
      then obtain b where "c # cs = sub @ b" using startswith_iff by blast
      then have "c # cs = [] @ sub @ b" by simp
      then show ?thesis by blast
    next
      case 2
      then obtain a b where "cs = a @ sub @ b" using Cons.IH by blast
      then have "c # cs = (c # a) @ sub @ b" by simp
      then show ?thesis by blast
    qed
  next
    assume "\<exists>a b. c # cs = a @ sub @ b"
    then obtain a b where ab: "c # cs = a @ sub @ b" by blast
    show "contains (c # cs) sub"
    proof (cases a)
      case Nil
      with ab have "startswith (c # cs) sub" using startswith_iff by auto
      then show ?thesis by simp
    next
      case (Cons x a')
      with ab have "cs = a' @ sub @ b" by simp
      then have "contains cs sub" using Cons.IH by blast
      then show ?thesis by simp
    qed
  qed
qed

lemma foldl_append_concat: "foldl (\<lambda>r e. r @ f e) init xs = init @ concat (map f xs)"
  by (induction xs arbitrary: init) simp_all

lemma foldl_append_filter:
  "foldl (\<lambda>res e. if p e then res @ [f e] else res) init xs = init @ map f (filter p xs)"
  by (induction xs arbitrary: init) simp_all

lemma search_module_eq:
  "search_module q res entry =
     res @ map (\<lambda>e. search_line e (fst entry))
             (filter (\<lambda>e. contains (lower e) q) (exports (snd entry)))"
  unfolding search_module_def by (rule foldl_append_filter)

lemma foldl_search_module:
  "foldl (search_module q) res idx =
     res @ concat (map (\<lambda>entry. map (\<lambda>e. search_line e (fst entry))
                          (filter (\<lambda>e. contains (lower e) q) (exports (snd entry)))) idx)"
proof (induction idx arbitrary: res)
  case Nil
  show ?case by simp
next
  case (Cons entry idx)
  show ?case using Cons.IH [of "search_module q res entry"]
    by (simp add: search_module_eq)
qed

lemma spec_search_lines_code [code]:
  "spec_search_lines idx query =
     concat (map (\<lambda>entry. map (\<lambda>e. search_line e (fst entry))
                    (filter (\<lambda>e. contains (lower e) (lower query)) (exports (snd entry)))) idx)"
  unfolding spec_search_lines_def by (simp add: contains_iff)

lemma search_results_eq: "search_results idx (lower query) = spec_search_lines idx query"
  unfolding search_results_def spec_search_lines_code by (simp add: foldl_search_module)

lemma spec_event_list_code [code]: "spec_event_list events = event_names events"
  unfolding spec_event_list_def event_names_def by (simp add: contains_iff)

lemma digits_value_snoc: "digits_value (ds @ [c]) = 10 * digits_value ds + (of_char c - 48)"
  by (simp add: digits_value_def)

lemma of_char_digit: "k < 10 \<Longrightarrow> (of_char (char_of (48 + k :: nat)) :: nat) = 48 + k"
  by simp

lemma digits_value_str_nat: "digits_value (str_nat n) = n"
proof (induction n rule: str_nat.induct)
  case (1 n)
  show ?case
  proof (cases "n < 10")
    case True
    then show ?thesis
      by (subst str_nat.simps) (simp add: digits_value_def)
  next
    case False
    have m: "(of_char (char_of (48 + n mod 10)) :: nat) = 48 + n mod 10"
      by (rule of_char_digit) simp
    from False 1 have "digits_value (str_nat (n div 10)) = n div 10" by simp
    with False m show ?thesis
      by (subst str_nat.simps) (simp add: digits_value_snoc)
  qed
qed

lemma join_member: "k \<in> set xs \<Longrightarrow> \<exists>a b. join sep xs = a @ k @ b"
proof (induction sep xs rule: join.induct)
  case (1 sep)
  then show ?case by simp
next
  case (2 sep x)
  then have "join sep [x] = [] @ k @ []" by simp
  then show ?case by blast
next
  case (3 sep x y ys)
  show ?case
  proof (cases "k = x")
    case True
    then have "join sep (x # y # ys) = [] @ k @ (sep @ join sep (y # ys))" by simp
    then show ?thesis by blast
  next
    case False
    with 3 obtain a b where "join sep (y # ys) = a @ k @ b" by auto
    then have "join sep (x # y # ys) = (x @ sep @ a) @ k @ b" by simp
    then show ?thesis by blast
  qed
qed

lemma get_event_info_listing:
  assumes "map_of idx ''endstone.event'' = Some info" and "\<not> truthy arg"
  shows "get_event_info idx arg =
           ''# Available Events ('' @ str_nat (length (spec_event_list (exports info))) @ '')''
             @ [newline, newline] @ concat (map export_bullet (spec_event_list (exports info)))"
  using assms
  by (simp add: get_event_info_def Let_def foldl_append_concat spec_event_list_code)

section \<open>Facts about the template generator\<close>

lemma create_plugin_template_parts:
  "create_plugin_template plugin_name features
     = base_template plugin_name
         @ (if ''events'' \<in> set features then events_fragment else [])
         @ (if ''commands'' \<in> set features then commands_fragment else [])
         @ closing_fragment"
  by (simp add: create_plugin_template_def Let_def)

lemma base_template_text:
  \<open>base_template plugin_name
     = (''from endstone.plugin import Plugin\<newline>''
         @ ''from endstone import Logger\<newline>''
         @ ''\<newline>''
         @ ''class '' @ plugin_name
         @ ''Plugin(Plugin):\<newline>''
         @ ''    \<newline>''
         @ ''    def __init__(self):\<newline>''
         @ ''        super().__init__()\<newline>''
         @ ''        self.logger: Logger = self.get_logger()\<newline>''
         @ ''    \<newline>''
         @ ''    def on_enable(self) -> None:\<newline>''
         @ ''        """Called when the plugin is enabled."""\<newline>''
         @ ''        self.logger.info(f"{self.name} v{self.version} has been enabled!")\<newline>'')\<close>
  by (simp add: base_template_def text_lines_def newline_def)

lemma events_fragment_text:
  \<open>events_fragment
     = (''\<newline>''
         @ ''        # Register event handlers\<newline>''
         @ ''        self.register_events()\<newline>''
         @ ''    \<newline>''
         @ ''    def register_events(self):\<newline>''
         @ ''        """Register event handlers."""\<newline>''
         @ ''        from endstone.event import event_handler, PlayerJoinEvent\<newline>''
         @ ''        \<newline>''
         @ ''        @event_handler\<newline>''
         @ ''        def on_player_join(self, event: PlayerJoinEvent):\<newline>''
         @ ''            player = event.player\<newline>''
         @ ''            self.logger.info(f"Player {{player.name}} joined the server!")\<newline>'')\<close>
  by (simp add: events_fragment_def text_lines_def newline_def)

lemma commands_fragment_text:
  \<open>commands_fragment
     = (''\<newline>''
         @ ''        # Register commands\<newline>''
         @ ''        self.register_commands()\<newline>''
         @ ''    \<newline>''
         @ ''    def register_commands(self):\<newline>''
         @ ''        """Register custom commands."""\<newline>''
         @ ''        from endstone.command import Command, CommandExecutor\<newline>''
         @ ''        \<newline>''
         @ ''        # Example command implementation\<newline>''
         @ ''        pass\<newline>'')\<close>
  by (simp add: commands_fragment_def text_lines_def newline_def)

lemma closing_fragment_text:
  \<open>closing_fragment
     = (''\<newline>''
         @ ''    \<newline>''
         @ ''    def on_disable(self) -> None:\<newline>''
         @ ''        """Called when the plugin is disabled."""\<newline>''
         @ ''        self.logger.info(f"{{self.name}} has been disabled!")\<newline>'')\<close>
  by (simp add: closing_fragment_def text_lines_def newline_def)

lemma length_events_fragment: "length events_fragment = 406"
  by (simp add: events_fragment_def text_lines_def)

lemma length_commands_fragment: "length commands_fragment = 265"
  by (simp add: commands_fragment_def text_lines_def)

lemma create_plugin_template_eq_iff:
  "(create_plugin_template plugin_name features = create_plugin_template plugin_name features')
     \<longleftrightarrow> ((''events'' \<in> set features \<longleftrightarrow> ''events'' \<in> set features')
          \<and> (''commands'' \<in> set features \<longleftrightarrow> ''commands'' \<in> set features'))"
proof
  assume eq: "create_plugin_template plugin_name features
                = create_plugin_template plugin_name features'"
  let ?mid = "\<lambda>fs. (if ''events'' \<in> set fs then events_fragment else [])
                    @ (if ''commands'' \<in> set fs then commands_fragment else [])"
  from eq have "?mid features @ closing_fragment = ?mid features' @ closing_fragment"
    unfolding create_plugin_template_parts by simp
  then have "?mid features = ?mid features'" by simp
  then have "length (?mid features) = length (?mid features')" by simp
  moreover have "events_fragment \<noteq> []" "commands_fragment \<noteq> []"
    using length_events_fragment length_commands_fragment by auto
  ultimately show "(''events'' \<in> set features \<longleftrightarrow> ''events'' \<in> set features')
          \<and> (''commands'' \<in> set features \<longleftrightarrow> ''commands'' \<in> set features')"
    by (simp add: length_events_fragment length_commands_fragment split: if_splits)
next
  assume "(''events'' \<in> set features \<longleftrightarrow> ''events'' \<in> set features')
          \<and> (''commands'' \<in> set features \<longleftrightarrow> ''commands'' \<in> set features')"
  then show "create_plugin_template plugin_name features
               = create_plugin_template plugin_name features'"
    unfolding create_plugin_template_parts by simp
qed

section \<open>Claims about the query operations and the template generator\<close>

text \<open>
  C5, as the specification states it: the result is exactly one line for each matching
  export, in the format \<open>export (from module)\<close>. On the index \<open>demo_index\<close> the
  query \<open>form\<close> has one match; the result is a heading, an empty line and the line
  \<open>- `ActionForm` from `endstone.form`\<close>, which is not \<open>ActionForm (from endstone.form)\<close>.
\<close>

theorem search_exports_format_counterexample:
  "search_exports demo_index (Some ''form'')
     = ''# Search Results for '' @ [squote] @ ''form'' @ [squote] @ [newline, newline]
         @ ''- `ActionForm` from `endstone.form`''
   \<and> search_exports demo_index (Some ''form'') \<noteq> ''ActionForm (from endstone.form)''"
  by code_simp

text \<open>
  C5, amended: for a non-empty query the match is a case-insensitive substring test of the
  query against each export of each module, the modules and then the exports in index
  order. When at least one export matches, the result is the heading
  \<open># Search Results for 'query'\<close>, an empty line, and one line
  \<open>- `export` from `module`\<close> for each match, the lines joined by line breaks. When none
  matches, the result is the message \<open>No exports found matching 'query'\<close>.
\<close>

theorem search_exports_result:
  assumes "query \<noteq> []"
  shows "search_exports idx (Some query) =
           (if spec_search_lines idx query = []
            then ''No exports found matching '' @ [squote] @ query @ [squote]
            else ''# Search Results for '' @ [squote] @ query @ [squote] @ [newline, newline]
                   @ join [newline] (spec_search_lines idx query))"
  using assms by (simp add: search_exports_def Let_def search_results_eq)

theorem search_exports_result_witness:
  "''FORM'' \<noteq> []
   \<and> spec_search_lines demo_index ''FORM'' = [''- `ActionForm` from `endstone.form`'']
   \<and> search_exports demo_index (Some ''FORM'')
       = ''# Search Results for '' @ [squote] @ ''FORM'' @ [squote] @ [newline, newline]
           @ ''- `ActionForm` from `endstone.form`''
   \<and> spec_search_lines demo_index ''zzz'' = []
   \<and> search_exports demo_index (Some ''zzz'')
       = ''No exports found matching '' @ [squote] @ ''zzz'' @ [squote]"
proof -
  have h1: "''FORM'' \<noteq> []" and h2: "''zzz'' \<noteq> []" by simp_all
  have v1: "spec_search_lines demo_index ''FORM'' = [''- `ActionForm` from `endstone.form`'']"
    by code_simp
  have v2: "spec_search_lines demo_index ''zzz'' = []" by code_simp
  show ?thesis
    using v1 v2 search_exports_result [OF h1, of demo_index]
      search_exports_result [OF h2, of demo_index]
    by simp
qed

text \<open>
  C6: for a non-empty module name that is not a key of the index, the result is the text
  \<open>Module 'name' not found. Available modules: \<close> followed by the keys of the index
  joined by a comma and a space; so it contains \<open>not found\<close> and every known module
  name. The operation has no failing branch.
\<close>

theorem get_module_info_not_found:
  assumes "module_name \<noteq> []" and "module_name \<notin> set (keys idx)"
  shows "get_module_info idx (Some module_name)
           = ''Module '' @ [squote] @ module_name @ [squote]
               @ '' not found. Available modules: '' @ join '', '' (keys idx)
         \<and> (\<exists>a b. get_module_info idx (Some module_name) = a @ ''not found'' @ b)
         \<and> (\<forall>k \<in> set (keys idx). \<exists>a b. get_module_info idx (Some module_name) = a @ k @ b)"
proof -
  let ?pre = "''Module '' @ [squote] @ module_name @ [squote]"
  have none: "map_of idx module_name = None"
    using assms(2) by (simp add: keys_def map_of_eq_None_iff)
  have eq: "get_module_info idx (Some module_name)
              = ?pre @ '' not found. Available modules: '' @ join '', '' (keys idx)"
    using assms(1) none by (simp add: get_module_info_def Let_def)
  have nf: "get_module_info idx (Some module_name)
              = (?pre @ '' '') @ ''not found'' @ (''. Available modules: '' @ join '', '' (keys idx))"
    unfolding eq by simp
  have ks: "\<exists>a b. get_module_info idx (Some module_name) = a @ k @ b"
    if "k \<in> set (keys idx)" for k
  proof -
    from join_member [OF that, of "'', ''"]
    obtain a b where "join '', '' (keys idx) = a @ k @ b" by blast
    then have "get_module_info idx (Some module_name)
                 = (?pre @ '' not found. Available modules: '' @ a) @ k @ b"
      unfolding eq by simp
    then show ?thesis by blast
  qed
  show ?thesis
  proof (intro conjI ballI)
    show "get_module_info idx (Some module_name)
            = ''Module '' @ [squote] @ module_name @ [squote]
                @ '' not found. Available modules: '' @ join '', '' (keys idx)"
      using eq by simp
    show "\<exists>a b. get_module_info idx (Some module_name) = a @ ''not found'' @ b"
      using nf by blast
    show "\<exists>a b. get_module_info idx (Some module_name) = a @ k @ b"
      if "k \<in> set (keys idx)" for k
      using ks [OF that] .
  qed
qed

theorem get_module_info_not_found_witness:
  "''nope.module'' \<noteq> [] \<and> ''nope.module'' \<notin> set (keys demo_index)
   \<and> get_module_info demo_index (Some ''nope.module'')
       = ''Module '' @ [squote] @ ''nope.module'' @ [squote]
           @ '' not found. Available modules: endstone.form, endstone.event''"
proof -
  have h1: "''nope.module'' \<noteq> []" by simp
  have h2: "''nope.module'' \<notin> set (keys demo_index)" by code_simp
  have j: "join '', '' (keys demo_index) = ''endstone.form, endstone.event''" by code_simp
  show ?thesis
    using h2 j get_module_info_not_found [OF h1 h2] by simp
qed

text \<open>
  C7: for a non-empty plugin name the template is the base text with the name in its
  class line, then the events text exactly when \<open>events\<close> is among the features, then
  the commands text exactly when \<open>commands\<close> is among them, then the closing text, each
  text as the source has it. All other flags have no effect, and two feature lists give
  the same template for a name exactly when they agree on the two flags, whatever the
  order of the flags in the lists.
\<close>

theorem generate_plugin_template_text:
  assumes \<open>plugin_name \<noteq> []\<close>
  shows \<open>generate_plugin_template (Some plugin_name) features
           = (''from endstone.plugin import Plugin\<newline>''
               @ ''from endstone import Logger\<newline>''
               @ ''\<newline>''
               @ ''class '' @ plugin_name
               @ ''Plugin(Plugin):\<newline>''
               @ ''    \<newline>''
               @ ''    def __init__(self):\<newline>''
               @ ''        super().__init__()\<newline>''
               @ ''        self.logger: Logger = self.get_logger()\<newline>''
               @ ''    \<newline>''
               @ ''    def on_enable(self) -> None:\<newline>''
               @ ''        """Called when the plugin is enabled."""\<newline>''
               @ ''        self.logger.info(f"{self.name} v{self.version} has been enabled!")\<newline>'')
             @ (if ''events'' \<in> set features
                then (''\<newline>''
                     @ ''        # Register event handlers\<newline>''
                     @ ''        self.register_events()\<newline>''
                     @ ''    \<newline>''
                     @ ''    def register_events(self):\<newline>''
                     @ ''        """Register event handlers."""\<newline>''
                     @ ''        from endstone.event import event_handler, PlayerJoinEvent\<newline>''
                     @ ''        \<newline>''
                     @ ''        @event_handler\<newline>''
                     @ ''        def on_player_join(self, event: PlayerJoinEvent):\<newline>''
                     @ ''            player = event.player\<newline>''
                     @ ''            self.logger.info(f"Player {{player.name}} joined the server!")\<newline>'')
                else [])
             @ (if ''commands'' \<in> set features
                then (''\<newline>''
                     @ ''        # Register commands\<newline>''
                     @ ''        self.register_commands()\<newline>''
                     @ ''    \<newline>''
                     @ ''    def register_commands(self):\<newline>''
                     @ ''        """Register custom commands."""\<newline>''
                     @ ''        from endstone.command import Command, CommandExecutor\<newline>''
                     @ ''        \<newline>''
                     @ ''        # Example command implementation\<newline>''
                     @ ''        pass\<newline>'')
                else [])
             @ (''\<newline>''
               @ ''    \<newline>''
               @ ''    def on_disable(self) -> None:\<newline>''
               @ ''        """Called when the plugin is disabled."""\<newline>''
               @ ''        self.logger.info(f"{{self.name}} has been disabled!")\<newline>'')
         \<and> generate_plugin_template (Some plugin_name) features
           = generate_plugin_template (Some plugin_name)
               (filter (\<lambda>f. f = ''events'' \<or> f = ''commands'') features)
         \<and> (generate_plugin_template (Some plugin_name) features
               = generate_plugin_template (Some plugin_name) features'
             \<longleftrightarrow> ((''events'' \<in> set features \<longleftrightarrow> ''events'' \<in> set features')
                  \<and> (''commands'' \<in> set features \<longleftrightarrow> ''commands'' \<in> set features')))\<close>
proof -
  have g: "generate_plugin_template (Some plugin_name) fs = create_plugin_template plugin_name fs"
    for fs using assms by (simp add: generate_plugin_template_def)
  have t: \<open>generate_plugin_template (Some plugin_name) features
           = (''from endstone.plugin import Plugin\<newline>''
               @ ''from endstone import Logger\<newline>''
               @ ''\<newline>''
               @ ''class '' @ plugin_name
               @ ''Plugin(Plugin):\<newline>''
               @ ''    \<newline>''
               @ ''    def __init__(self):\<newline>''
               @ ''        super().__init__()\<newline>''
               @ ''        self.logger: Logger = self.get_logger()\<newline>''
               @ ''    \<newline>''
               @ ''    def on_enable(self) -> None:\<newline>''
               @ ''        """Called when the plugin is enabled."""\<newline>''
               @ ''        self.logger.info(f"{self.name} v{self.version} has been enabled!")\<newline>'')
             @ (if ''events'' \<in> set features
                then (''\<newline>''
                     @ ''        # Register event handlers\<newline>''
                     @ ''        self.register_events()\<newline>''
                     @ ''    \<newline>''
                     @ ''    def register_events(self):\<newline>''
                     @ ''        """Register event handlers."""\<newline>''
                     @ ''        from endstone.event import event_handler, PlayerJoinEvent\<newline>''
                     @ ''        \<newline>''
                     @ ''        @event_handler\<newline>''
                     @ ''        def on_player_join(self, event: PlayerJoinEvent):\<newline>''
                     @ ''            player = event.player\<newline>''
                     @ ''            self.logger.info(f"Player {{player.name}} joined the server!")\<newline>'')
                else [])
             @ (if ''commands'' \<in> set features
                then (''\<newline>''
                     @ ''        # Register commands\<newline>''
                     @ ''        self.register_commands()\<newline>''
                     @ ''    \<newline>''
                     @ ''    def register_commands(self):\<newline>''
                     @ ''        """Register custom commands."""\<newline>''
                     @ ''        from endstone.command import Command, CommandExecutor\<newline>''
                     @ ''        \<newline>''
                     @ ''        # Example command implementation\<newline>''
                     @ ''        pass\<newline>'')
                else [])
             @ (''\<newline>''
               @ ''    \<newline>''
               @ ''    def on_disable(self) -> None:\<newline>''
               @ ''        """Called when the plugin is disabled."""\<newline>''
               @ ''        self.logger.info(f"{{self.name}} has been disabled!")\<newline>'')\<close>
    unfolding g create_plugin_template_parts base_template_text events_fragment_text
      commands_fragment_text closing_fragment_text
    by (rule refl)
  have f: "generate_plugin_template (Some plugin_name) features
           = generate_plugin_template (Some plugin_name)
               (filter (\<lambda>f. f = ''events'' \<or> f = ''commands'') features)"
    unfolding g by (simp add: create_plugin_template_def Let_def)
  have d: "(generate_plugin_template (Some plugin_name) features
               = generate_plugin_template (Some plugin_name) features')
             \<longleftrightarrow> ((''events'' \<in> set features \<longleftrightarrow> ''events'' \<in> set features')
                  \<and> (''commands'' \<in> set features \<longleftrightarrow> ''commands'' \<in> set features'))"
    unfolding g by (rule create_plugin_template_eq_iff)
  from t f d show ?thesis by (intro conjI)
qed

theorem generate_plugin_template_text_witness:
  \<open>''Foo'' \<noteq> []
   \<and> generate_plugin_template (Some ''Foo'') [''commands'', ''permissions'', ''events'']
       = (''from endstone.plugin import Plugin\<newline>''
           @ ''from endstone import Logger\<newline>''
           @ ''\<newline>''
           @ ''class '' @ ''Foo''
           @ ''Plugin(Plugin):\<newline>''
           @ ''    \<newline>''
           @ ''    def __init__(self):\<newline>''
           @ ''        super().__init__()\<newline>''
           @ ''        self.logger: Logger = self.get_logger()\<newline>''
           @ ''    \<newline>''
           @ ''    def on_enable(self) -> None:\<newline>''
           @ ''        """Called when the plugin is enabled."""\<newline>''
           @ ''        self.logger.info(f"{self.name} v{self.version} has been enabled!")\<newline>'')
         @ (''\<newline>''
           @ ''        # Register event handlers\<newline>''
           @ ''        self.register_events()\<newline>''
           @ ''    \<newline>''
           @ ''    def register_events(self):\<newline>''
           @ ''        """Register event handlers."""\<newline>''
           @ ''        from endstone.event import event_handler, PlayerJoinEvent\<newline>''
           @ ''        \<newline>''
           @ ''        @event_handler\<newline>''
           @ ''        def on_player_join(self, event: PlayerJoinEvent):\<newline>''
           @ ''            player = event.player\<newline>''
           @ ''            self.logger.info(f"Player {{player.name}} joined the server!")\<newline>'')
         @ (''\<newline>''
           @ ''        # Register commands\<newline>''
           @ ''        self.register_commands()\<newline>''
           @ ''    \<newline>''
           @ ''    def register_commands(self):\<newline>''
           @ ''        """Register custom commands."""\<newline>''
           @ ''        from endstone.command import Command, CommandExecutor\<newline>''
           @ ''        \<newline>''
           @ ''        # Example command implementation\<newline>''
           @ ''        pass\<newline>'')
         @ (''\<newline>''
           @ ''    \<newline>''
           @ ''    def on_disable(self) -> None:\<newline>''
           @ ''        """Called when the plugin is disabled."""\<newline>''
           @ ''        self.logger.info(f"{{self.name}} has been disabled!")\<newline>'')
   \<and> generate_plugin_template (Some ''Foo'') []
       = (''from endstone.plugin import Plugin\<newline>''
           @ ''from endstone import Logger\<newline>''
           @ ''\<newline>''
           @ ''class '' @ ''Foo''
           @ ''Plugin(Plugin):\<newline>''
           @ ''    \<newline>''
           @ ''    def __init__(self):\<newline>''
           @ ''        super().__init__()\<newline>''
           @ ''        self.logger: Logger = self.get_logger()\<newline>''
           @ ''    \<newline>''
           @ ''    def on_enable(self) -> None:\<newline>''
           @ ''        """Called when the plugin is enabled."""\<newline>''
           @ ''        self.logger.info(f"{self.name} v{self.version} has been enabled!")\<newline>'')
         @ (''\<newline>''
           @ ''    \<newline>''
           @ ''    def on_disable(self) -> None:\<newline>''
           @ ''        """Called when the plugin is disabled."""\<newline>''
           @ ''        self.logger.info(f"{{self.name}} has been disabled!")\<newline>'')
   \<and> generate_plugin_template (Some ''Foo'') [''commands'', ''permissions'', ''events'']
       \<noteq> generate_plugin_template (Some ''Foo'') []\<close>
proof -
  have h: "''Foo'' \<noteq> []" by simp
  have e1: "''events'' \<in> set [''commands'', ''permissions'', ''events'']" by simp
  have c1: "''commands'' \<in> set [''commands'', ''permissions'', ''events'']" by simp
  have e0: "''events'' \<notin> set ([] :: string list)" by simp
  have c0: "''commands'' \<notin> set ([] :: string list)" by simp
  note t1 = generate_plugin_template_text
              [OF h, of "[''commands'', ''permissions'', ''events'']" "[]"]
  note t0 = generate_plugin_template_text [OF h, of "[]" "[]"]
  have a: \<open>generate_plugin_template (Some ''Foo'') [''commands'', ''permissions'', ''events'']
       = (''from endstone.plugin import Plugin\<newline>''
           @ ''from endstone import Logger\<newline>''
           @ ''\<newline>''
           @ ''class '' @ ''Foo''
           @ ''Plugin(Plugin):\<newline>''
           @ ''    \<newline>''
           @ ''    def __init__(self):\<newline>''
           @ ''        super().__init__()\<newline>''
           @ ''        self.logger: Logger = self.get_logger()\<newline>''
           @ ''    \<newline>''
           @ ''    def on_enable(self) -> None:\<newline>''
           @ ''        """Called when the plugin is enabled."""\<newline>''
           @ ''        self.logger.info(f"{self.name} v{self.version} has been enabled!")\<newline>'')
         @ (''\<newline>''
           @ ''        # Register event handlers\<newline>''
           @ ''        self.register_events()\<newline>''
           @ ''    \<newline>''
           @ ''    def register_events(self):\<newline>''
           @ ''        """Register event handlers."""\<newline>''
           @ ''        from endstone.event import event_handler, PlayerJoinEvent\<newline>''
           @ ''        \<newline>''
           @ ''        @event_handler\<newline>''
           @ ''        def on_player_join(self, event: PlayerJoinEvent):\<newline>''
           @ ''            player = event.player\<newline>''
           @ ''            self.logger.info(f"Player {{player.name}} joined the server!")\<newline>'')
         @ (''\<newline>''
           @ ''        # Register commands\<newline>''
           @ ''        self.register_commands()\<newline>''
           @ ''    \<newline>''
           @ ''    def register_commands(self):\<newline>''
           @ ''        """Register custom commands."""\<newline>''
           @ ''        from endstone.command import Command, CommandExecutor\<newline>''
           @ ''        \<newline>''
           @ ''        # Example command implementation\<newline>''
           @ ''        pass\<newline>'')
         @ (''\<newline>''
           @ ''    \<newline>''
           @ ''    def on_disable(self) -> None:\<newline>''
           @ ''        """Called when the plugin is disabled."""\<newline>''
           @ ''        self.logger.info(f"{{self.name}} has been disabled!")\<newline>'')\<close>
    using t1 [THEN conjunct1] by (simp only: e1 c1 if_True)
  have b: \<open>generate_plugin_template (Some ''Foo'') []
       = (''from endstone.plugin import Plugin\<newline>''
           @ ''from endstone import Logger\<newline>''
           @ ''\<newline>''
           @ ''class '' @ ''Foo''
           @ ''Plugin(Plugin):\<newline>''
           @ ''    \<newline>''
           @ ''    def __init__(self):\<newline>''
           @ ''        super().__init__()\<newline>''
           @ ''        self.logger: Logger = self.get_logger()\<newline>''
           @ ''    \<newline>''
           @ ''    def on_enable(self) -> None:\<newline>''
           @ ''        """Called when the plugin is enabled."""\<newline>''
           @ ''        self.logger.info(f"{self.name} v{self.version} has been enabled!")\<newline>'')
         @ (''\<newline>''
           @ ''    \<newline>''
           @ ''    def on_disable(self) -> None:\<newline>''
           @ ''        """Called when the plugin is disabled."""\<newline>''
           @ ''        self.logger.info(f"{{self.name}} has been disabled!")\<newline>'')\<close>
    using t0 [THEN conjunct1] e0 c0 by (simp only: if_False append_Nil)
  have c: "generate_plugin_template (Some ''Foo'') [''commands'', ''permissions'', ''events'']
       \<noteq> generate_plugin_template (Some ''Foo'') []"
    using t1 [THEN conjunct2, THEN conjunct2] e1 e0 by blast
  from h a b c show ?thesis by (intro conjI)
qed

text \<open>
  C8: when \<open>endstone.event\<close> is in the index and the event type is omitted, the result is
  the heading \<open># Available Events (n)\<close>, where the digits \<open>n\<close> denote the number of
  exports of that module whose name contains \<open>Event\<close>, followed by one bullet line for
  each of those exports, in order.
\<close>

theorem get_event_info_omitted:
  assumes "map_of idx ''endstone.event'' = Some info"
  shows "get_event_info idx None
           = ''# Available Events ('' @ str_nat (length (spec_event_list (exports info))) @ '')''
               @ [newline, newline] @ concat (map export_bullet (spec_event_list (exports info)))
         \<and> digits_value (str_nat (length (spec_event_list (exports info))))
           = length (spec_event_list (exports info))"
  using get_event_info_listing [OF assms, of None] by (simp add: digits_value_str_nat)

theorem get_event_info_omitted_witness:
  "map_of demo_index ''endstone.event''
     = Some \<lparr>file_path = ''event.py'',
             exports = [''PlayerJoinEvent'', ''event_handler'', ''BlockBreakEvent''],
             content = []\<rparr>
   \<and> get_event_info demo_index None
     = ''# Available Events (2)'' @ [newline, newline]
         @ ''- `PlayerJoinEvent`'' @ [newline] @ ''- `BlockBreakEvent`'' @ [newline]"
proof -
  have h: "map_of demo_index ''endstone.event''
     = Some \<lparr>file_path = ''event.py'',
             exports = [''PlayerJoinEvent'', ''event_handler'', ''BlockBreakEvent''],
             content = []\<rparr>"
    by code_simp
  have v: "spec_event_list [''PlayerJoinEvent'', ''event_handler'', ''BlockBreakEvent'']
             = [''PlayerJoinEvent'', ''BlockBreakEvent'']"
    by code_simp
  have s: "str_nat (Suc (Suc 0)) = ''2''" by code_simp
  show ?thesis
    using h get_event_info_omitted [OF h]
    by (simp add: v s export_bullet_def)
qed

text \<open>
  C9: with the required argument absent or empty, each of the three operations returns its
  message saying that the argument is required, as an ordinary text result.
\<close>

theorem required_argument_messages:
  assumes "arg = None \<or> arg = Some []"
  shows "get_module_info idx arg = ''Module name is required''
         \<and> search_exports idx arg = ''Search query is required''
         \<and> generate_plugin_template arg features = ''Plugin name is required''
         \<and> contains (get_module_info idx arg) ''required''
         \<and> contains (search_exports idx arg) ''required''
         \<and> contains (generate_plugin_template arg features) ''required''"
proof -
  have m: "get_module_info idx arg = ''Module name is required''"
    using assms by (auto simp add: get_module_info_def)
  have q: "search_exports idx arg = ''Search query is required''"
    using assms by (auto simp add: search_exports_def)
  have p: "generate_plugin_template arg features = ''Plugin name is required''"
    using assms by (auto simp add: generate_plugin_template_def)
  have c: "contains ''Module name is required'' ''required''"
    "contains ''Search query is required'' ''required''"
    "contains ''Plugin name is required'' ''required''"
    by code_simp+
  show ?thesis unfolding m q p using c by simp
qed

theorem required_argument_messages_witness:
  "get_module_info demo_index (Some []) = ''Module name is required''
   \<and> search_exports demo_index None = ''Search query is required''
   \<and> generate_plugin_template (Some []) [''events''] = ''Plugin name is required''"
proof -
  have h1: "Some [] = None \<or> Some [] = Some ([] :: string)" by simp
  have h2: "None = None \<or> None = Some ([] :: string)" by simp
  show ?thesis
    using required_argument_messages [OF h1, of demo_index "[''events'']"]
      required_argument_messages [OF h2, of demo_index "[''events'']"]
    by simp
qed

text \<open>
  C10: when \<open>endstone.event\<close> is in the index, the empty string as event type gives the
  same result as an omitted event type: the heading with the count and the list of the
  exports containing \<open>Event\<close>; it is neither the description of an event nor the
  message that the event was not found.
\<close>

theorem get_event_info_empty_string:
  assumes "map_of idx ''endstone.event'' = Some info"
  shows "get_event_info idx (Some []) = get_event_info idx None
         \<and> get_event_info idx (Some [])
           = ''# Available Events ('' @ str_nat (length (event_names (exports info))) @ '')''
               @ [newline, newline] @ concat (map export_bullet (event_names (exports info)))
         \<and> get_event_info idx (Some []) \<noteq> event_usage []
         \<and> get_event_info idx (Some []) \<noteq> event_not_found [] (exports info)"
proof -
  let ?r = "get_event_info idx (Some [])"
  have l1: "?r = ''# Available Events ('' @ str_nat (length (event_names (exports info))) @ '')''
               @ [newline, newline] @ concat (map export_bullet (event_names (exports info)))"
    using get_event_info_listing [OF assms, of "Some []"] by (simp add: spec_event_list_code)
  have l2: "get_event_info idx None = ?r"
    using get_event_info_listing [OF assms, of "Some []"]
      get_event_info_listing [OF assms, of None] by simp
  have t: "take 3 ?r = ''# A''" unfolding l1 by simp
  have u: "take 3 (event_usage []) = ''# '' @ [newline]"
    by (simp add: event_usage_def)
  have n: "take 3 (event_not_found [] (exports info)) = ''Eve''"
    by (simp add: event_not_found_def)
  have d1: "?r \<noteq> event_usage []"
  proof
    assume "?r = event_usage []"
    with t u have "''# A'' = ''# '' @ [newline]" by simp
    then show False by (simp add: newline_def)
  qed
  have d2: "?r \<noteq> event_not_found [] (exports info)"
  proof
    assume "?r = event_not_found [] (exports info)"
    with t n have "''# A'' = ''Eve''" by simp
    then show False by simp
  qed
  from l1 l2 d1 d2 show ?thesis by simp
qed

theorem get_event_info_empty_string_witness:
  "map_of demo_index ''endstone.event''
     = Some \<lparr>file_path = ''event.py'',
             exports = [''PlayerJoinEvent'', ''event_handler'', ''BlockBreakEvent''],
             content = []\<rparr>
   \<and> get_event_info demo_index (Some []) = get_event_info demo_index None
   \<and> get_event_info demo_index (Some [])
     = ''# Available Events (2)'' @ [newline, newline]
         @ ''- `PlayerJoinEvent`'' @ [newline] @ ''- `BlockBreakEvent`'' @ [newline]"
proof -
  have h: "map_of demo_index ''endstone.event''
     = Some \<lparr>file_path = ''event.py'',
             exports = [''PlayerJoinEvent'', ''event_handler'', ''BlockBreakEvent''],
             content = []\<rparr>"
    by code_simp
  have v: "event_names [''PlayerJoinEvent'', ''event_handler'', ''BlockBreakEvent'']
             = [''PlayerJoinEvent'', ''BlockBreakEvent'']"
    by code_simp
  have s: "str_nat (Suc (Suc 0)) = ''2''" by code_simp
  note t = get_event_info_empty_string [OF h]
  from t have a: "get_event_info demo_index (Some []) = get_event_info demo_index None"
    by (rule conjunct1)
  have b: "get_event_info demo_index (Some [])
     = ''# Available Events (2)'' @ [newline, newline]
         @ ''- `PlayerJoinEvent`'' @ [newline] @ ''- `BlockBreakEvent`'' @ [newline]"
    using t [THEN conjunct2, THEN conjunct1] by (simp add: v s export_bullet_def)
  show ?thesis by (rule conjI [OF h conjI [OF a b]])
qed

end
